theory Spec2Isabelle
  imports Main
begin

section \<open>Field sets (employees.go, lines 17--67)\<close>

text \<open>
  \<^verbatim>\<open>type EmployeeField string\<close> and \<^verbatim>\<open>type EmployeeFields []EmployeeField\<close>.
  A Go string is a sequence of bytes and \<^verbatim>\<open>len\<close> counts bytes, as \<open>length\<close> does on
  a \<open>char list\<close>.
\<close>

type_synonym EmployeeField = string
type_synonym EmployeeFields = "EmployeeField list"

subsection \<open>strings.Builder\<close>

text \<open>
  The builder is its accumulated content and the capacity asked for. \<^verbatim>\<open>Grow\<close> only
  reserves room; \<^verbatim>\<open>WriteString\<close> appends; \<^verbatim>\<open>String\<close> reads the content. Lengths are
  natural numbers: the count handed to \<^verbatim>\<open>Grow\<close> is a sum of lengths and is not negative.
\<close>

record Builder =
  buf :: string
  reserved :: nat

definition Builder_zero :: Builder where
  "Builder_zero = \<lparr>buf = [], reserved = 0\<rparr>"

definition Grow :: "nat \<Rightarrow> Builder \<Rightarrow> Builder" where
  "Grow n b = b\<lparr>reserved := max (reserved b) (length (buf b) + n)\<rparr>"

definition WriteString :: "string \<Rightarrow> Builder \<Rightarrow> Builder" where
  "WriteString s b = b\<lparr>buf := buf b @ s\<rparr>"

definition String :: "Builder \<Rightarrow> string" where
  "String b = buf b"

subsection \<open>Join\<close>

text \<open>
  \<^verbatim>\<open>for i := 0; i < len(ef); i++ { n += len(ef[i]) }\<close>, started at index \<open>i\<close>.
\<close>

function countLen :: "EmployeeFields \<Rightarrow> nat \<Rightarrow> nat \<Rightarrow> nat" where
  "countLen ef i n = (if i < length ef then countLen ef (Suc i) (n + length (ef ! i)) else n)"
  by pat_completeness auto
termination
  by (relation "measure (\<lambda>(ef, i, n). length ef - i)") auto

declare countLen.simps [simp del]

text \<open>
  \<^verbatim>\<open>for _, s := range ef[1:] { b.WriteString(sep); b.WriteString(string(s)) }\<close>,
  over the remaining elements.
\<close>

fun writeRest :: "string \<Rightarrow> EmployeeField list \<Rightarrow> Builder \<Rightarrow> Builder" where
  "writeRest sep [] b = b"
| "writeRest sep (s # rest) b = writeRest sep rest (WriteString s (WriteString sep b))"

definition Join :: "EmployeeFields \<Rightarrow> string \<Rightarrow> string" where
  "Join ef sep =
     (if length ef = 0 then []
      else if length ef = 1 then ef ! 0
      else
        let n = length sep * (length ef - 1);
            n = countLen ef 0 n;
            b = Builder_zero;
            b = Grow n b;
            b = WriteString (ef ! 0) b;
            b = writeRest sep (drop 1 ef) b
        in String b)"

text \<open>
  The behaviour the specification words for \<open>Join\<close>: nothing for no token, the token
  itself for one, and otherwise the tokens in order with the separator between each
  two neighbours.
\<close>

fun Join_spec :: "EmployeeFields \<Rightarrow> string \<Rightarrow> string" where
  "Join_spec [] sep = []"
| "Join_spec [t] sep = t"
| "Join_spec (t # u # rest) sep = t @ sep @ Join_spec (u # rest) sep"

subsection \<open>The field tokens\<close>

text \<open>
  The constants of lines 47--67. The record \<open>Employee\<close> below has fields of the same
  names, so the tokens carry the suffix \<open>_field\<close>.
\<close>

definition DisplayName_field :: EmployeeField where "DisplayName_field = ''DisplayName''"
definition FirstName_field :: EmployeeField where "FirstName_field = ''FirstName''"
definition LastName_field :: EmployeeField where "LastName_field = ''LastName''"
definition PreferredName_field :: EmployeeField where "PreferredName_field = ''PreferredName''"
definition Gender_field :: EmployeeField where "Gender_field = ''Gender''"
definition JobTitle_field :: EmployeeField where "JobTitle_field = ''JobTitle''"
definition WorkPhone_field :: EmployeeField where "WorkPhone_field = ''WorkPhone''"
definition MobilePhone_field :: EmployeeField where "MobilePhone_field = ''MobilePhone''"
definition WorkEmail_field :: EmployeeField where "WorkEmail_field = ''WorkEmail''"
definition Department_field :: EmployeeField where "Department_field = ''Department''"
definition Location_field :: EmployeeField where "Location_field = ''Location''"
definition Division_field :: EmployeeField where "Division_field = ''Division''"
definition LinkedIn_field :: EmployeeField where "LinkedIn_field = ''LinkedIn''"
definition WorkPhoneExtension_field :: EmployeeField where
  "WorkPhoneExtension_field = ''WorkPhoneExtension''"
definition PhotoUploaded_field :: EmployeeField where "PhotoUploaded_field = ''PhotoUploaded''"
definition PhotoURL_field :: EmployeeField where "PhotoURL_field = ''PhotoURL''"
definition CanUploadPhoto_field :: EmployeeField where
  "CanUploadPhoto_field = ''CanUploadPhoto''"
definition HireDate_field :: EmployeeField where "HireDate_field = ''HireDate''"
definition ReportingTo_field :: EmployeeField where "ReportingTo_field = ''Reporting to''"

section \<open>The data model (employees.go, lines 12--15 and 69--90)\<close>

text \<open>
  \<^verbatim>\<open>PhotoUploaded *bool\<close> and \<^verbatim>\<open>CanUploadPhoto *int\<close> are pointers: \<open>None\<close> is
  the nil pointer, \<open>Some v\<close> a pointer to \<open>v\<close>. All other fields are strings.
\<close>

record Employee =
  ID :: string
  DisplayName :: string
  FirstName :: string
  LastName :: string
  PreferredName :: string
  Gender :: string
  JobTitle :: string
  WorkPhone :: string
  MobilePhone :: string
  WorkEmail :: string
  Department :: string
  Location :: string
  Division :: string
  LinkedIn :: string
  WorkPhoneExtension :: string
  PhotoUploaded :: "bool option"
  PhotoURL :: string
  CanUploadPhoto :: "int option"
  HireDate :: string

text \<open>The zero value of the struct, as \<^verbatim>\<open>var employee Employee\<close> gives it.\<close>

definition Employee_zero :: Employee where
  "Employee_zero =
     \<lparr>ID = [], DisplayName = [], FirstName = [], LastName = [], PreferredName = [],
      Gender = [], JobTitle = [], WorkPhone = [], MobilePhone = [], WorkEmail = [],
      Department = [], Location = [], Division = [], LinkedIn = [],
      WorkPhoneExtension = [], PhotoUploaded = None, PhotoURL = [],
      CanUploadPhoto = None, HireDate = []\<rparr>"

record EmployeeResponse =
  Employees :: "Employee list"

text \<open>\<^verbatim>\<open>EmployeeResponse{}\<close>: the nil slice, which ranges as the empty one.\<close>

definition EmployeeResponse_zero :: EmployeeResponse where
  "EmployeeResponse_zero = \<lparr>Employees = []\<rparr>"

section \<open>Errors\<close>

text \<open>
  An error value by where it is made: \<open>ErrorsNew msg\<close> is \<^verbatim>\<open>errors.New(msg)\<close> of this
  file; \<open>RequestError\<close> comes from \<^verbatim>\<open>http.NewRequest\<close>; \<open>TransportError\<close> and
  \<open>DecodeError\<close> come from the request executor. A Go function returning
  \<^verbatim>\<open>(T, error)\<close> returns a pair whose second component is \<open>None\<close> for \<^verbatim>\<open>nil\<close>.
\<close>

datatype error =
  ErrorsNew string
| RequestError string
| TransportError string
| DecodeError

section \<open>Requests (net/http, net/url, context)\<close>

text \<open>
  A context is the background context, \<^verbatim>\<open>context.TODO()\<close>, or one the caller holds
  (told apart by a number). The \<^verbatim>\<open>context\<close> package has callers never pass a nil
  context, and the type has none.
\<close>

datatype "context" = Background | TODO | Caller nat

text \<open>
  \<^verbatim>\<open>url.Values\<close> is \<^verbatim>\<open>map[string][]string\<close>; a key that is not in the map reads as
  the empty slice. \<^verbatim>\<open>Add\<close> appends to the key's values, \<^verbatim>\<open>Get\<close> reads the first.
\<close>

type_synonym Values = "string \<Rightarrow> string list"

definition Values_Add :: "Values \<Rightarrow> string \<Rightarrow> string \<Rightarrow> Values" where
  "Values_Add v key val = v(key := v key @ [val])"

definition Values_Get :: "Values \<Rightarrow> string \<Rightarrow> string" where
  "Values_Get v key = (case v key of [] \<Rightarrow> [] | x # _ \<Rightarrow> x)"

text \<open>
  A URL is the text it was parsed from and its query. The query string is kept as the
  values it encodes: \<^verbatim>\<open>u.Query()\<close> reads them and \<^verbatim>\<open>u.RawQuery = q.Encode()\<close> stores
  them.
\<close>

record URL =
  Text :: string
  RawQuery :: Values

definition Query :: "URL \<Rightarrow> Values" where
  "Query u = RawQuery u"

definition Encode :: "Values \<Rightarrow> Values" where
  "Encode q = q"

record Request =
  Method :: string
  Url :: URL
  Ctx :: "context"

definition WithContext :: "context \<Rightarrow> Request \<Rightarrow> Request" where
  "WithContext ctx req = req\<lparr>Ctx := ctx\<rparr>"

section \<open>JSON values\<close>

datatype json =
  JNull
| JBool bool
| JInt int
| JString string
| JArray "json list"
| JObject "(string \<times> json) list"

section \<open>The collaborators\<close>

text \<open>
  What the methods call and this file does not define. \<open>url_Parse\<close> is the parsing
  inside \<^verbatim>\<open>http.NewRequest\<close>: the error message for a malformed URL, or the query that
  the URL text already carries. \<open>execute\<close> is the network round trip of the request
  executor, from the state of the remote side to the next: the message of a transport
  failure (or a status that is no success), or the JSON value of the response body.
\<close>

record 'w env =
  url_Parse :: "string \<Rightarrow> string + Values"
  execute :: "Request \<Rightarrow> 'w \<Rightarrow> (string + json) \<times> 'w"

text \<open>
  The state threaded through the methods: the remote side, and the requests that have
  gone out, in order.
\<close>

record 'w world =
  remote :: 'w
  sent :: "Request list"

record Client =
  BaseURL :: string

text \<open>
  \<^verbatim>\<open>http.NewRequest(method, url, nil)\<close>: fails when the URL does not parse; the new
  request has the background context. Both methods of this file pass \<^verbatim>\<open>"GET"\<close>, which
  is a valid method.
\<close>

definition http_NewRequest :: "'w env \<Rightarrow> string \<Rightarrow> string \<Rightarrow> error + Request" where
  "http_NewRequest env method url =
     (case url_Parse env url of
        Inl msg \<Rightarrow> Inl (RequestError msg)
      | Inr q \<Rightarrow> Inr \<lparr>Method = method, Url = \<lparr>Text = url, RawQuery = q\<rparr>, Ctx = Background\<rparr>)"

subsection \<open>Decoding\<close>

text \<open>
  Modelled from the spec: the JSON decoding that \<^verbatim>\<open>makeRequest\<close> applies to the
  response body is not in employees.go. The specification has the field tokens as the
  exact JSON keys, every attribute but the two pointers string-valued, and a key that
  is not in the response leaving its field as it was. A JSON \<open>null\<close> leaves a string
  as it was and makes a pointer nil; a value of another shape is a decoding failure,
  as is an integer outside the 64-bit range of \<^verbatim>\<open>int\<close>; keys that name no field are
  skipped.
\<close>

definition decodeString :: "json \<Rightarrow> string \<Rightarrow> string option" where
  "decodeString v cur = (case v of JString s \<Rightarrow> Some s | JNull \<Rightarrow> Some cur | _ \<Rightarrow> None)"

text \<open>
  Modelled from the spec: decoding into \<^verbatim>\<open>*bool\<close>, the optional boolean of the data
  model (absent or null is told apart from false); part of the decoder missing from
  employees.go.
\<close>

definition decodeBoolPtr :: "json \<Rightarrow> bool option option" where
  "decodeBoolPtr v = (case v of JBool b \<Rightarrow> Some (Some b) | JNull \<Rightarrow> Some None | _ \<Rightarrow> None)"

text \<open>
  Modelled from the spec: decoding into \<^verbatim>\<open>*int\<close>, the optional integer of the data
  model (absent or null is told apart from zero); part of the decoder missing from
  employees.go.
\<close>

definition decodeIntPtr :: "json \<Rightarrow> int option option" where
  "decodeIntPtr v =
     (case v of
        JInt n \<Rightarrow> if - (2 ^ 63) \<le> n \<and> n < 2 ^ 63 then Some (Some n) else None
      | JNull \<Rightarrow> Some None
      | _ \<Rightarrow> None)"

text \<open>
  Modelled from the spec: one key of the response object stored into the field of that
  name, the field tokens (and \<open>ID\<close>) being the exact JSON keys; part of the decoder
  missing from employees.go.
\<close>

definition setField :: "string \<Rightarrow> json \<Rightarrow> Employee \<Rightarrow> Employee option" where
  "setField key v e =
     (if key = ''ID'' then map_option (\<lambda>s. e\<lparr>ID := s\<rparr>) (decodeString v (ID e))
      else if key = ''DisplayName'' then
        map_option (\<lambda>s. e\<lparr>DisplayName := s\<rparr>) (decodeString v (DisplayName e))
      else if key = ''FirstName'' then
        map_option (\<lambda>s. e\<lparr>FirstName := s\<rparr>) (decodeString v (FirstName e))
      else if key = ''LastName'' then
        map_option (\<lambda>s. e\<lparr>LastName := s\<rparr>) (decodeString v (LastName e))
      else if key = ''PreferredName'' then
        map_option (\<lambda>s. e\<lparr>PreferredName := s\<rparr>) (decodeString v (PreferredName e))
      else if key = ''Gender'' then
        map_option (\<lambda>s. e\<lparr>Gender := s\<rparr>) (decodeString v (Gender e))
      else if key = ''JobTitle'' then
        map_option (\<lambda>s. e\<lparr>JobTitle := s\<rparr>) (decodeString v (JobTitle e))
      else if key = ''WorkPhone'' then
        map_option (\<lambda>s. e\<lparr>WorkPhone := s\<rparr>) (decodeString v (WorkPhone e))
      else if key = ''MobilePhone'' then
        map_option (\<lambda>s. e\<lparr>MobilePhone := s\<rparr>) (decodeString v (MobilePhone e))
      else if key = ''WorkEmail'' then
        map_option (\<lambda>s. e\<lparr>WorkEmail := s\<rparr>) (decodeString v (WorkEmail e))
      else if key = ''Department'' then
        map_option (\<lambda>s. e\<lparr>Department := s\<rparr>) (decodeString v (Department e))
      else if key = ''Location'' then
        map_option (\<lambda>s. e\<lparr>Location := s\<rparr>) (decodeString v (Location e))
      else if key = ''Division'' then
        map_option (\<lambda>s. e\<lparr>Division := s\<rparr>) (decodeString v (Division e))
      else if key = ''LinkedIn'' then
        map_option (\<lambda>s. e\<lparr>LinkedIn := s\<rparr>) (decodeString v (LinkedIn e))
      else if key = ''WorkPhoneExtension'' then
        map_option (\<lambda>s. e\<lparr>WorkPhoneExtension := s\<rparr>) (decodeString v (WorkPhoneExtension e))
      else if key = ''PhotoUploaded'' then
        map_option (\<lambda>p. e\<lparr>PhotoUploaded := p\<rparr>) (decodeBoolPtr v)
      else if key = ''PhotoURL'' then
        map_option (\<lambda>s. e\<lparr>PhotoURL := s\<rparr>) (decodeString v (PhotoURL e))
      else if key = ''CanUploadPhoto'' then
        map_option (\<lambda>p. e\<lparr>CanUploadPhoto := p\<rparr>) (decodeIntPtr v)
      else if key = ''HireDate'' then
        map_option (\<lambda>s. e\<lparr>HireDate := s\<rparr>) (decodeString v (HireDate e))
      else Some e)"

text \<open>
  Modelled from the spec: the keys of the response object taken one after the other;
  part of the decoder missing from employees.go.
\<close>

fun decodeFields :: "(string \<times> json) list \<Rightarrow> Employee \<Rightarrow> Employee option" where
  "decodeFields [] e = Some e"
| "decodeFields ((key, v) # kvs) e =
     (case setField key v e of None \<Rightarrow> None | Some e' \<Rightarrow> decodeFields kvs e')"

text \<open>
  Modelled from the spec: the decoding of a JSON body of a single employee object into an
  \<open>Employee\<close>, which \<^verbatim>\<open>makeRequest\<close> (missing from employees.go) does for the
  destination of \<open>GetEmployee\<close>.
\<close>

definition decodeEmployee :: "json \<Rightarrow> Employee \<Rightarrow> Employee option" where
  "decodeEmployee body e =
     (case body of JObject kvs \<Rightarrow> decodeFields kvs e | JNull \<Rightarrow> Some e | _ \<Rightarrow> None)"

text \<open>
  Modelled from the spec: the decoding of the \<open>Employees\<close> array, each element into a
  fresh \<open>Employee\<close>; part of the decoder missing from employees.go.
\<close>

fun decodeEmployees :: "json list \<Rightarrow> Employee list option" where
  "decodeEmployees [] = Some []"
| "decodeEmployees (j # js) =
     (case decodeEmployee j Employee_zero of
        None \<Rightarrow> None
      | Some e \<Rightarrow> (case decodeEmployees js of None \<Rightarrow> None | Some es \<Rightarrow> Some (e # es)))"

text \<open>
  Modelled from the spec: the value under the key \<open>Employees\<close> stored into the response
  wrapper; part of the decoder missing from employees.go.
\<close>

definition setEmployees :: "json \<Rightarrow> EmployeeResponse \<Rightarrow> EmployeeResponse option" where
  "setEmployees v er =
     (case v of
        JArray js \<Rightarrow> map_option (\<lambda>es. er\<lparr>Employees := es\<rparr>) (decodeEmployees js)
      | JNull \<Rightarrow> Some (er\<lparr>Employees := []\<rparr>)
      | _ \<Rightarrow> None)"

text \<open>
  Modelled from the spec: the keys of the directory response object taken one after the
  other, all but \<open>Employees\<close> skipped; part of the decoder missing from employees.go.
\<close>

fun decodeResponseFields ::
  "(string \<times> json) list \<Rightarrow> EmployeeResponse \<Rightarrow> EmployeeResponse option" where
  "decodeResponseFields [] er = Some er"
| "decodeResponseFields ((key, v) # kvs) er =
     (if key = ''Employees'' then
        (case setEmployees v er of None \<Rightarrow> None | Some er' \<Rightarrow> decodeResponseFields kvs er')
      else decodeResponseFields kvs er)"

text \<open>
  Modelled from the spec: the decoding of the JSON body
  \<^verbatim>\<open>{"Employees": [...]}\<close> into an \<open>EmployeeResponse\<close>, which \<^verbatim>\<open>makeRequest\<close>
  (missing from employees.go) does for the destination of \<open>GetEmployeeDirectory\<close>.
\<close>

definition decodeEmployeeResponse :: "json \<Rightarrow> EmployeeResponse \<Rightarrow> EmployeeResponse option" where
  "decodeEmployeeResponse body er =
     (case body of JObject kvs \<Rightarrow> decodeResponseFields kvs er | JNull \<Rightarrow> Some er | _ \<Rightarrow> None)"

subsection \<open>The request executor\<close>

text \<open>
  Modelled from the spec: \<^verbatim>\<open>makeRequest\<close> is a method of the client that is not in
  employees.go. By the specification it performs the call, which is one outbound
  request, and fills the destination by decoding the JSON body; it returns an error on
  a transport failure, a status that is no success, or a decoding failure, and then the
  destination holds no result. The decoder is the one of the destination's type.
\<close>

definition makeRequest ::
  "'w env \<Rightarrow> Client \<Rightarrow> (json \<Rightarrow> 'd \<Rightarrow> 'd option) \<Rightarrow> Request \<Rightarrow> 'd \<Rightarrow> 'w world
     \<Rightarrow> ('d \<times> error option) \<times> 'w world" where
  "makeRequest env c decode req dest w =
     (case execute env req (remote w) of
        (r, s) \<Rightarrow>
          let w' = \<lparr>remote = s, sent = sent w @ [req]\<rparr> in
          (case r of
             Inl msg \<Rightarrow> ((dest, Some (TransportError msg)), w')
           | Inr body \<Rightarrow>
               (case decode body dest of
                  None \<Rightarrow> ((dest, Some DecodeError), w')
                | Some d \<Rightarrow> ((d, None), w'))))"

section \<open>The client's operations (employees.go, lines 92--170)\<close>

definition GetEmployeeDirectory ::
  "'w env \<Rightarrow> Client \<Rightarrow> context \<Rightarrow> 'w world \<Rightarrow> (Employee list \<times> error option) \<times> 'w world" where
  "GetEmployeeDirectory env c ctx w =
     (let url = BaseURL c @ ''/employees/directory'' in
      case http_NewRequest env ''GET'' url of
        Inl err \<Rightarrow> (([], Some err), w)
      | Inr req \<Rightarrow>
          let req = WithContext ctx req;
              er = EmployeeResponse_zero
          in (case makeRequest env c decodeEmployeeResponse req er w of
                ((er, Some err), w') \<Rightarrow> (([], Some err), w')
              | ((er, None), w') \<Rightarrow> ((Employees er, None), w')))"

text \<open>
  The loop of \<open>GetEmployeeIDByEmail\<close>, with the return after it: the first entry
  whose work email is the given one ends the function with its ID.
\<close>

fun scanID :: "Employee list \<Rightarrow> string \<Rightarrow> string \<times> error option" where
  "scanID [] email = ([], None)"
| "scanID (e # directory) email =
     (if WorkEmail e = email then (ID e, None) else scanID directory email)"

definition GetEmployeeIDByEmail ::
  "'w env \<Rightarrow> Client \<Rightarrow> string \<Rightarrow> 'w world \<Rightarrow> (string \<times> error option) \<times> 'w world" where
  "GetEmployeeIDByEmail env c email w =
     (case GetEmployeeDirectory env c TODO w of
        ((directory, Some err), w') \<Rightarrow> (([], Some err), w')
      | ((directory, None), w') \<Rightarrow> (scanID directory email, w'))"

text \<open>
  The loop that collects the caller's fields,
  \<^verbatim>\<open>for _, field := range fields { ef = append(ef, field) }\<close>.
\<close>

fun appendFields :: "EmployeeFields \<Rightarrow> EmployeeField list \<Rightarrow> EmployeeFields" where
  "appendFields ef [] = ef"
| "appendFields ef (field # fields') = appendFields (ef @ [field]) fields'"

definition defaultFields :: EmployeeFields where
  "defaultFields =
     [DisplayName_field, FirstName_field, LastName_field, PreferredName_field,
      Gender_field, JobTitle_field, WorkPhone_field, MobilePhone_field, WorkEmail_field,
      Department_field, Location_field, Division_field, LinkedIn_field,
      WorkPhoneExtension_field, PhotoUploaded_field, PhotoURL_field,
      CanUploadPhoto_field, HireDate_field]"

text \<open>
  The query value the specification documents for a call without fields: the eighteen
  default tokens in the documented order, with commas between them.
\<close>

definition default_query :: string where
  "default_query =
     ''DisplayName,FirstName,LastName,PreferredName,Gender,JobTitle,WorkPhone,MobilePhone,WorkEmail,Department,Location,Division,LinkedIn,WorkPhoneExtension,PhotoUploaded,PhotoURL,CanUploadPhoto,HireDate''"

definition GetEmployee ::
  "'w env \<Rightarrow> Client \<Rightarrow> context \<Rightarrow> string \<Rightarrow> EmployeeField list \<Rightarrow> 'w world
     \<Rightarrow> (Employee \<times> error option) \<times> 'w world" where
  "GetEmployee env c ctx id' fields' w =
     (let employee = Employee_zero;
          url = BaseURL c @ ''/employees/'' @ id'
      in case http_NewRequest env ''GET'' url of
        Inl err \<Rightarrow> ((employee, Some err), w)
      | Inr req \<Rightarrow>
          let ef = ([] :: EmployeeFields);
              ef = (if length fields' > 0 then appendFields [] fields' else defaultFields);
              q = Query (Url req);
              q = Values_Add q ''fields'' (Join ef '','');
              req = req\<lparr>Url := (Url req)\<lparr>RawQuery := Encode q\<rparr>\<rparr>;
              req = WithContext ctx req
          in (case makeRequest env c decodeEmployee req employee w of
                ((employee, Some err), w') \<Rightarrow> ((employee, Some err), w')
              | ((employee, None), w') \<Rightarrow> ((employee, None), w')))"

text \<open>
  The loop of \<open>GetEmployeeByEmail\<close>: the first entry whose work email is the given
  one sets \<^verbatim>\<open>id\<close> and breaks.
\<close>

fun scanBreak :: "Employee list \<Rightarrow> string \<Rightarrow> string \<Rightarrow> string" where
  "scanBreak [] email id' = id'"
| "scanBreak (e # directory) email id' =
     (if WorkEmail e = email then ID e else scanBreak directory email id')"

definition GetEmployeeByEmail ::
  "'w env \<Rightarrow> Client \<Rightarrow> context \<Rightarrow> string \<Rightarrow> EmployeeField list \<Rightarrow> 'w world
     \<Rightarrow> (Employee \<times> error option) \<times> 'w world" where
  "GetEmployeeByEmail env c ctx email fields' w =
     (let id' = [];
          employee = Employee_zero
      in case GetEmployeeDirectory env c ctx w of
        ((directory, Some err), w') \<Rightarrow> ((employee, Some err), w')
      | ((directory, None), w') \<Rightarrow>
          let id' = scanBreak directory email id' in
          if length id' = 0 then ((employee, Some (ErrorsNew ''No employee found'')), w')
          else GetEmployee env c ctx id' fields' w')"

section \<open>Example clients\<close>

text \<open>
  Concrete collaborators on which the operations are run below. \<open>example_parse\<close>
  gives what \<^verbatim>\<open>net/url\<close> gives on the URL texts used here: a text that starts with a
  colon has no protocol scheme and does not parse; the text ending in
  \<^verbatim>\<open>?fields=ID\<close> carries the query \<open>fields = [ID]\<close>; the other texts used carry no query.
\<close>

definition example_parse :: "string \<Rightarrow> string + Values" where
  "example_parse u =
     (if take 1 u = '':'' then Inl ''missing protocol scheme''
      else if u = ''https://api.example/v1/employees/7?fields=ID'' then
        Inr ((\<lambda>key. [])(''fields'' := [''ID'']))
      else Inr (\<lambda>key. []))"

text \<open>
  The remote side counts the requests it has answered. The first service has the
  directory of the specification's scenario, extended by two entries, and the record of
  employee 7; the second has one entry whose ID is empty; every other URL is answered
  with a status that is no success.
\<close>

definition example_directory :: json where
  "example_directory =
     JObject [(''Employees'', JArray
       [JObject [(''ID'', JString ''7''), (''WorkEmail'', JString ''a@x.com'')],
        JObject [(''ID'', JString ''8''), (''WorkEmail'', JString ''b@x.com'')],
        JObject [(''ID'', JString ''9''), (''WorkEmail'', JString ''a@x.com'')]])]"

definition example_employee :: json where
  "example_employee =
     JObject [(''WorkEmail'', JString ''a@x.com''), (''JobTitle'', JString ''Engineer'')]"

definition example_directory_noid :: json where
  "example_directory_noid =
     JObject [(''Employees'', JArray
       [JObject [(''ID'', JString []), (''WorkEmail'', JString ''new@x.com'')]])]"

definition example_execute :: "Request \<Rightarrow> nat \<Rightarrow> (string + json) \<times> nat" where
  "example_execute req s =
     (if Text (Url req) = ''https://api.example/v1/employees/directory'' then
        (Inr example_directory, Suc s)
      else if Text (Url req) = ''https://api.example/v1/employees/7'' then
        (Inr example_employee, Suc s)
      else if Text (Url req) = ''https://hr.example/v1/employees/directory'' then
        (Inr example_directory_noid, Suc s)
      else (Inl ''404 Not Found'', Suc s))"

definition example_env :: "nat env" where
  "example_env = \<lparr>url_Parse = example_parse, execute = example_execute\<rparr>"

definition example_client :: Client where
  "example_client = \<lparr>BaseURL = ''https://api.example/v1''\<rparr>"

definition noid_client :: Client where
  "noid_client = \<lparr>BaseURL = ''https://hr.example/v1''\<rparr>"

definition unknown_client :: Client where
  "unknown_client = \<lparr>BaseURL = ''https://down.example/v1''\<rparr>"

definition malformed_client :: Client where
  "malformed_client = \<lparr>BaseURL = '':''\<rparr>"

definition example_world :: "nat world" where
  "example_world = \<lparr>remote = 0, sent = []\<rparr>"

section \<open>Unfolding the definitions\<close>

lemmas field_defs =
  DisplayName_field_def FirstName_field_def LastName_field_def PreferredName_field_def
  Gender_field_def JobTitle_field_def WorkPhone_field_def MobilePhone_field_def
  WorkEmail_field_def Department_field_def Location_field_def Division_field_def
  LinkedIn_field_def WorkPhoneExtension_field_def PhotoUploaded_field_def
  PhotoURL_field_def CanUploadPhoto_field_def HireDate_field_def ReportingTo_field_def

section \<open>Properties of Join\<close>

lemma countLen_sum:
  "countLen ef i n = n + sum_list (map length (drop i ef))"
proof (induction ef i n rule: countLen.induct)
  case (1 ef i n)
  show ?case
  proof (cases "i < length ef")
    case True
    then have "drop i ef = ef ! i # drop (Suc i) ef"
      by (simp add: Cons_nth_drop_Suc)
    with True "1" show ?thesis
      by (subst countLen.simps) simp
  next
    case False
    then show ?thesis
      by (subst countLen.simps) simp
  qed
qed

lemma buf_writeRest:
  "buf (writeRest sep rest b) = buf b @ concat (map (\<lambda>s. sep @ s) rest)"
  by (induction rest arbitrary: b) (simp_all add: WriteString_def)

lemma Join_spec_Cons:
  "Join_spec (t # rest) sep = t @ concat (map (\<lambda>s. sep @ s) rest)"
  by (induction rest arbitrary: t) simp_all

lemma Join_Cons:
  "Join (t # rest) sep = t @ concat (map (\<lambda>s. sep @ s) rest)"
  by (cases rest)
    (simp_all add: Join_def Let_def String_def buf_writeRest WriteString_def Grow_def
      Builder_zero_def)

lemma Join_Nil: "Join [] sep = []"
  by (simp add: Join_def)

lemma Join_eq_spec: "Join ef sep = Join_spec ef sep"
  by (cases ef) (simp_all add: Join_Nil Join_Cons Join_spec_Cons)

lemma length_concat_sep:
  "length (concat (map (\<lambda>s. sep @ s) rest)) =
     length rest * length sep + sum_list (map length rest)"
  by (induction rest) simp_all

text \<open>
  C4. For every field list and separator, \<open>Join\<close> returns the empty string for no
  token, the token unchanged for one token, and otherwise the tokens in order with
  the separator between each two consecutive tokens. It is a total function of its
  two arguments: it reads no state and has no failing branch, so its result is
  the one the specification's wording gives, \<open>Join_spec\<close>, on every input.
\<close>

theorem Join_refines_spec:
  "Join [] sep = [] \<and> Join [t] sep = t \<and>
   Join (t # u # rest) sep = t @ sep @ Join (u # rest) sep \<and>
   Join ef sep = Join_spec ef sep"
  by (simp add: Join_Nil Join_Cons Join_eq_spec)

text \<open>
  C8. For a field list with at least one token, the length of the joined string is
  the sum of the token lengths plus (number of tokens minus one) times the length of
  the separator; for the empty list it is zero. The count \<open>n\<close> that \<open>Join\<close> computes
  before building is that same number.
\<close>

theorem Join_length:
  "(ef \<noteq> [] \<longrightarrow>
      length (Join ef sep) =
        sum_list (map length ef) + (length ef - 1) * length sep) \<and>
   length (Join [] sep) = 0 \<and>
   countLen ef 0 (length sep * (length ef - 1)) =
     sum_list (map length ef) + (length ef - 1) * length sep"
  by (cases ef) (simp_all add: Join_Nil Join_Cons length_concat_sep countLen_sum)

theorem Join_length_witness:
  "[''A'', ''B'', ''C''] \<noteq> ([] :: EmployeeFields) \<and>
   Join [''A'', ''B'', ''C''] '','' = ''A,B,C'' \<and>
   length (Join [''A'', ''B'', ''C''] '','') = 5"
  using Join_length [of "[''A'', ''B'', ''C'']" "'',''"]
  by (simp add: Join_Cons)

section \<open>Properties of the client's operations\<close>

lemma appendFields_append: "appendFields ef fs = ef @ fs"
  by (induction fs arbitrary: ef) simp_all

lemma find_first_entry:
  "(find P xs = Some e) =
     (\<exists>pre post. xs = pre @ e # post \<and> P e \<and> (\<forall>x\<in>set pre. \<not> P x))"
proof (induction xs)
  case Nil
  then show ?case by simp
next
  case (Cons x xs)
  show ?case
  proof (cases "P x")
    case True
    have "(x = e) = (\<exists>pre post. x # xs = pre @ e # post \<and> P e \<and> (\<forall>y\<in>set pre. \<not> P y))"
    proof
      assume "x = e"
      with True have "x # xs = [] @ e # xs \<and> P e \<and> (\<forall>y\<in>set []. \<not> P y)" by simp
      then show "\<exists>pre post. x # xs = pre @ e # post \<and> P e \<and> (\<forall>y\<in>set pre. \<not> P y)"
        by blast
    next
      assume "\<exists>pre post. x # xs = pre @ e # post \<and> P e \<and> (\<forall>y\<in>set pre. \<not> P y)"
      then obtain pre post where
        split: "x # xs = pre @ e # post" and none: "\<forall>y\<in>set pre. \<not> P y"
        by blast
      show "x = e"
      proof (cases pre)
        case Nil
        with split show ?thesis by simp
      next
        case (Cons p ps)
        with split have "p = x" by simp
        with Cons none True show ?thesis by simp
      qed
    qed
    with True show ?thesis by simp
  next
    case False
    have "(\<exists>pre post. xs = pre @ e # post \<and> P e \<and> (\<forall>y\<in>set pre. \<not> P y)) =
          (\<exists>pre post. x # xs = pre @ e # post \<and> P e \<and> (\<forall>y\<in>set pre. \<not> P y))"
    proof
      assume "\<exists>pre post. xs = pre @ e # post \<and> P e \<and> (\<forall>y\<in>set pre. \<not> P y)"
      then obtain pre post where "xs = pre @ e # post" "P e" "\<forall>y\<in>set pre. \<not> P y"
        by blast
      with False have
        "x # xs = (x # pre) @ e # post \<and> P e \<and> (\<forall>y\<in>set (x # pre). \<not> P y)"
        by simp
      then show "\<exists>pre post. x # xs = pre @ e # post \<and> P e \<and> (\<forall>y\<in>set pre. \<not> P y)"
        by blast
    next
      assume "\<exists>pre post. x # xs = pre @ e # post \<and> P e \<and> (\<forall>y\<in>set pre. \<not> P y)"
      then obtain pre post where
        split: "x # xs = pre @ e # post" and pe: "P e" and none: "\<forall>y\<in>set pre. \<not> P y"
        by blast
      show "\<exists>pre post. xs = pre @ e # post \<and> P e \<and> (\<forall>y\<in>set pre. \<not> P y)"
      proof (cases pre)
        case Nil
        with split pe False show ?thesis by simp
      next
        case (Cons p ps)
        with split none have "xs = ps @ e # post \<and> P e \<and> (\<forall>y\<in>set ps. \<not> P y)"
          using pe by simp
        then show ?thesis by blast
      qed
    qed
    with False Cons.IH show ?thesis by simp
  qed
qed

lemma scanID_find:
  "scanID directory email =
     (case find (\<lambda>e. WorkEmail e = email) directory of
        None \<Rightarrow> ([], None) | Some e \<Rightarrow> (ID e, None))"
  by (induction directory) simp_all

lemma scanBreak_find:
  "scanBreak directory email i =
     (case find (\<lambda>e. WorkEmail e = email) directory of None \<Rightarrow> i | Some e \<Rightarrow> ID e)"
  by (induction directory) simp_all

lemma sent_makeRequest:
  "sent (snd (makeRequest env c decode req dest w)) = sent w @ [req]"
  by (simp add: makeRequest_def Let_def split: prod.splits sum.splits option.splits)

lemma makeRequest_not_ErrorsNew:
  "snd (fst (makeRequest env c decode req dest w)) \<noteq> Some (ErrorsNew m)"
  by (simp add: makeRequest_def Let_def split: prod.splits sum.splits option.splits)

lemma GetEmployee_parsed:
  assumes "url_Parse env (BaseURL c @ ''/employees/'' @ id') = Inr q0"
  shows "GetEmployee env c ctx id' fs w =
     makeRequest env c decodeEmployee
       \<lparr>Method = ''GET'',
        Url = \<lparr>Text = BaseURL c @ ''/employees/'' @ id',
               RawQuery = Values_Add q0 ''fields''
                 (Join (if fs = [] then defaultFields else fs) '','')\<rparr>,
        Ctx = ctx\<rparr> Employee_zero w"
  using assms
  by (cases "makeRequest env c decodeEmployee
       \<lparr>Method = ''GET'',
        Url = \<lparr>Text = BaseURL c @ ''/employees/'' @ id',
               RawQuery = Values_Add q0 ''fields''
                 (Join (if fs = [] then defaultFields else fs) '','')\<rparr>,
        Ctx = ctx\<rparr> Employee_zero w")
     (auto simp add: GetEmployee_def http_NewRequest_def Let_def Query_def Encode_def
      WithContext_def appendFields_append split: option.splits)

lemma GetEmployee_unparsed:
  assumes "url_Parse env (BaseURL c @ ''/employees/'' @ id') = Inl msg"
  shows "GetEmployee env c ctx id' fs w = ((Employee_zero, Some (RequestError msg)), w)"
  using assms by (simp add: GetEmployee_def http_NewRequest_def Let_def)

lemma GetEmployee_not_ErrorsNew:
  "snd (fst (GetEmployee env c ctx id' fs w)) \<noteq> Some (ErrorsNew m)"
proof (cases "url_Parse env (BaseURL c @ ''/employees/'' @ id')")
  case (Inl msg)
  then show ?thesis by (simp add: GetEmployee_unparsed)
next
  case (Inr q0)
  then show ?thesis by (simp add: GetEmployee_parsed makeRequest_not_ErrorsNew)
qed

lemma GetEmployeeDirectory_parsed:
  assumes "url_Parse env (BaseURL c @ ''/employees/directory'') = Inr q0"
  shows "GetEmployeeDirectory env c ctx w =
     (case makeRequest env c decodeEmployeeResponse
        \<lparr>Method = ''GET'', Url = \<lparr>Text = BaseURL c @ ''/employees/directory'', RawQuery = q0\<rparr>,
         Ctx = ctx\<rparr> EmployeeResponse_zero w of
        ((er, Some err), w') \<Rightarrow> (([], Some err), w')
      | ((er, None), w') \<Rightarrow> ((Employees er, None), w'))"
  using assms
  by (simp add: GetEmployeeDirectory_def http_NewRequest_def Let_def WithContext_def)

lemma GetEmployeeDirectory_unparsed:
  assumes "url_Parse env (BaseURL c @ ''/employees/directory'') = Inl msg"
  shows "GetEmployeeDirectory env c ctx w = (([], Some (RequestError msg)), w)"
  using assms by (simp add: GetEmployeeDirectory_def http_NewRequest_def Let_def)


lemmas decode_defs =
  decodeEmployeeResponse_def decodeEmployee_def setEmployees_def setField_def
  decodeString_def decodeBoolPtr_def decodeIntPtr_def

lemmas example_defs =
  example_env_def example_parse_def example_execute_def example_world_def
  example_directory_def example_employee_def example_directory_noid_def

lemma example_directory_run:
  "GetEmployeeDirectory example_env example_client ctx example_world =
     (([Employee_zero\<lparr>ID := ''7'', WorkEmail := ''a@x.com''\<rparr>,
        Employee_zero\<lparr>ID := ''8'', WorkEmail := ''b@x.com''\<rparr>,
        Employee_zero\<lparr>ID := ''9'', WorkEmail := ''a@x.com''\<rparr>], None),
      \<lparr>remote = 1,
       sent = [\<lparr>Method = ''GET'',
                Url = \<lparr>Text = ''https://api.example/v1/employees/directory'',
                       RawQuery = (\<lambda>key. [])\<rparr>,
                Ctx = ctx\<rparr>]\<rparr>)"
  by (simp add: GetEmployeeDirectory_parsed [where ?q0.0 = "\<lambda>key. []"] makeRequest_def
      example_defs example_client_def decode_defs EmployeeResponse_zero_def)

lemma noid_directory_run:
  "GetEmployeeDirectory example_env noid_client ctx example_world =
     (([Employee_zero\<lparr>ID := [], WorkEmail := ''new@x.com''\<rparr>], None),
      \<lparr>remote = 1,
       sent = [\<lparr>Method = ''GET'',
                Url = \<lparr>Text = ''https://hr.example/v1/employees/directory'',
                       RawQuery = (\<lambda>key. [])\<rparr>,
                Ctx = ctx\<rparr>]\<rparr>)"
  by (simp add: GetEmployeeDirectory_parsed [where ?q0.0 = "\<lambda>key. []"] makeRequest_def
      example_defs noid_client_def decode_defs EmployeeResponse_zero_def)

lemma unknown_directory_run:
  "GetEmployeeDirectory example_env unknown_client ctx example_world =
     (([], Some (TransportError ''404 Not Found'')),
      \<lparr>remote = 1,
       sent = [\<lparr>Method = ''GET'',
                Url = \<lparr>Text = ''https://down.example/v1/employees/directory'',
                       RawQuery = (\<lambda>key. [])\<rparr>,
                Ctx = ctx\<rparr>]\<rparr>)"
  by (simp add: GetEmployeeDirectory_parsed [where ?q0.0 = "\<lambda>key. []"] makeRequest_def
      example_defs unknown_client_def)

lemma Join_defaultFields: "Join defaultFields '','' = default_query"
  by (simp add: defaultFields_def field_defs Join_Cons default_query_def)

lemma default_query_no_space: "CHR '' '' \<notin> set default_query"
  by (simp add: default_query_def)

lemma ReportingTo_not_inside: "default_query \<noteq> p @ ReportingTo_field @ s"
proof
  assume eq: "default_query = p @ ReportingTo_field @ s"
  have "CHR '' '' \<in> set (p @ ReportingTo_field @ s)"
    by (simp add: ReportingTo_field_def)
  then have "CHR '' '' \<in> set default_query"
    by (simp only: eq [symmetric])
  with default_query_no_space show False by simp
qed

lemma ReportingTo_not_default: "ReportingTo_field \<notin> set defaultFields"
  by (simp add: defaultFields_def field_defs)

lemma example_employee_run:
  "GetEmployee example_env example_client ctx ''7'' fs w =
     ((Employee_zero\<lparr>JobTitle := ''Engineer'', WorkEmail := ''a@x.com''\<rparr>, None),
      \<lparr>remote = Suc (remote w),
       sent = sent w @ [\<lparr>Method = ''GET'',
         Url = \<lparr>Text = ''https://api.example/v1/employees/7'',
                RawQuery = Values_Add (\<lambda>key. []) ''fields''
                  (Join (if fs = [] then defaultFields else fs) '','')\<rparr>,
         Ctx = ctx\<rparr>]\<rparr>)"
  by (simp add: GetEmployee_parsed [where ?q0.0 = "\<lambda>key. []"] makeRequest_def
      example_env_def example_parse_def example_execute_def example_employee_def
      example_client_def decode_defs Employee_zero_def)

lemma example_missing_employee_run:
  "GetEmployee example_env example_client ctx ''8'' [] w =
     ((Employee_zero, Some (TransportError ''404 Not Found'')),
      \<lparr>remote = Suc (remote w),
       sent = sent w @ [\<lparr>Method = ''GET'',
         Url = \<lparr>Text = ''https://api.example/v1/employees/8'',
                RawQuery = Values_Add (\<lambda>key. []) ''fields'' default_query\<rparr>,
         Ctx = ctx\<rparr>]\<rparr>)"
  by (simp add: GetEmployee_parsed [where ?q0.0 = "\<lambda>key. []"] makeRequest_def
      example_env_def example_parse_def example_execute_def example_client_def
      Join_defaultFields)

lemma malformed_directory_run:
  "GetEmployeeDirectory example_env malformed_client ctx example_world =
     (([], Some (RequestError ''missing protocol scheme'')), example_world)"
  by (simp add: GetEmployeeDirectory_unparsed [where msg = "''missing protocol scheme''"]
      example_env_def example_parse_def malformed_client_def)


lemma scanID_first:
  "(\<forall>x\<in>set pre. WorkEmail x \<noteq> email) \<Longrightarrow> WorkEmail e = email \<Longrightarrow>
   scanID (pre @ e # post) email = (ID e, None)"
  by (induction pre) simp_all

lemma scanID_none:
  "(\<forall>x\<in>set directory. WorkEmail x \<noteq> email) \<Longrightarrow> scanID directory email = ([], None)"
  by (induction directory) simp_all

lemma GetEmployeeIDByEmail_ok:
  "GetEmployeeDirectory env c TODO w = ((directory, None), w') \<Longrightarrow>
   GetEmployeeIDByEmail env c email w = (scanID directory email, w')"
  by (simp add: GetEmployeeIDByEmail_def)

lemma GetEmployeeIDByEmail_err:
  "GetEmployeeDirectory env c TODO w = ((directory, Some err), w') \<Longrightarrow>
   GetEmployeeIDByEmail env c email w = (([], Some err), w')"
  by (simp add: GetEmployeeIDByEmail_def)

lemma GetEmployeeByEmail_ok:
  "GetEmployeeDirectory env c ctx w = ((directory, None), w') \<Longrightarrow>
   GetEmployeeByEmail env c ctx email fs w =
     (if scanBreak directory email [] = []
      then ((Employee_zero, Some (ErrorsNew ''No employee found'')), w')
      else GetEmployee env c ctx (scanBreak directory email []) fs w')"
  by (simp add: GetEmployeeByEmail_def Let_def)

lemma GetEmployeeByEmail_err:
  "GetEmployeeDirectory env c ctx w = ((directory, Some err), w') \<Longrightarrow>
   GetEmployeeByEmail env c ctx email fs w = ((Employee_zero, Some err), w')"
  by (simp add: GetEmployeeByEmail_def Let_def)

text \<open>
  C1. Whenever \<open>GetEmployeeDirectory\<close> (called, as \<open>GetEmployeeIDByEmail\<close> calls
  it, with \<^verbatim>\<open>context.TODO()\<close>) returns a directory without error, then for every
  email: if \<open>e\<close> is the first entry whose \<open>WorkEmail\<close> is equal to the email (no entry
  before it has that email; equality of strings is exact, so case matters),
  \<open>GetEmployeeIDByEmail\<close> returns the ID of \<open>e\<close> and no error; if no entry has that
  email it returns the empty string and no error.
\<close>
theorem GetEmployeeIDByEmail_first_match:
  assumes "GetEmployeeDirectory env c TODO w = ((directory, None), w')"
  shows "(directory = pre @ e # post \<and> (\<forall>x\<in>set pre. WorkEmail x \<noteq> email) \<and>
            WorkEmail e = email \<longrightarrow>
          GetEmployeeIDByEmail env c email w = ((ID e, None), w')) \<and>
         ((\<forall>x\<in>set directory. WorkEmail x \<noteq> email) \<longrightarrow>
          GetEmployeeIDByEmail env c email w = (([], None), w'))"
  using assms
  by (auto simp add: GetEmployeeIDByEmail_ok scanID_first scanID_none simp del: scanID.simps)

theorem GetEmployeeIDByEmail_first_match_witness:
  "fst (GetEmployeeIDByEmail example_env example_client ''a@x.com'' example_world) =
     (''7'', None) \<and>
   fst (GetEmployeeIDByEmail example_env example_client ''missing@x.com'' example_world) =
     ([], None)"
  using
    GetEmployeeIDByEmail_first_match [OF example_directory_run,
      of "[]" "Employee_zero\<lparr>ID := ''7'', WorkEmail := ''a@x.com''\<rparr>" _ "''a@x.com''"]
    GetEmployeeIDByEmail_first_match [OF example_directory_run,
      of "[]" "Employee_zero\<lparr>ID := ''7'', WorkEmail := ''a@x.com''\<rparr>" _ "''missing@x.com''"]
  by (simp add: Employee_zero_def)

text \<open>
  C2 as stated does not hold: the service at \<open>noid_client\<close> returns a directory whose
  only entry has the work email asked for and an empty ID, and \<open>GetEmployeeByEmail\<close>
  fails with "No employee found" although an entry matches.
\<close>
theorem GetEmployeeByEmail_empty_ID_counterexample:
  "fst (GetEmployeeDirectory example_env noid_client (Caller 0) example_world) =
     ([Employee_zero\<lparr>ID := [], WorkEmail := ''new@x.com''\<rparr>], None) \<and>
   WorkEmail (Employee_zero\<lparr>ID := [], WorkEmail := ''new@x.com''\<rparr>) = ''new@x.com'' \<and>
   snd (fst (GetEmployeeByEmail example_env noid_client (Caller 0) ''new@x.com'' []
     example_world)) = Some (ErrorsNew ''No employee found'')"
  by (simp add: noid_directory_run GetEmployeeByEmail_ok [OF noid_directory_run])

text \<open>
  C2, amended. Whenever \<open>GetEmployeeDirectory\<close> returns a directory without error,
  \<open>GetEmployeeByEmail\<close> fails with the error "No employee found" if and only if no
  entry has the given work email or the first entry that has it has an empty ID; and
  when the first entry with that work email has a non-empty ID, the result is the result
  of \<open>GetEmployee\<close> with that ID and the caller's fields, run after the directory
  request.
\<close>
theorem GetEmployeeByEmail_not_found_iff:
  assumes "GetEmployeeDirectory env c ctx w = ((directory, None), w')"
  shows "(snd (fst (GetEmployeeByEmail env c ctx email fs w)) =
            Some (ErrorsNew ''No employee found'')) =
         (case find (\<lambda>x. WorkEmail x = email) directory of
            None \<Rightarrow> True | Some e \<Rightarrow> ID e = []) \<and>
         (find (\<lambda>x. WorkEmail x = email) directory = Some e \<and> ID e \<noteq> [] \<longrightarrow>
          GetEmployeeByEmail env c ctx email fs w = GetEmployee env c ctx (ID e) fs w')"
  by (simp add: GetEmployeeByEmail_ok [OF assms] scanBreak_find GetEmployee_not_ErrorsNew
      split: option.splits)


theorem GetEmployeeByEmail_not_found_iff_witness:
  "fst (GetEmployeeByEmail example_env example_client (Caller 0) ''a@x.com''
          [WorkEmail_field, JobTitle_field] example_world) =
     (Employee_zero\<lparr>JobTitle := ''Engineer'', WorkEmail := ''a@x.com''\<rparr>, None) \<and>
   snd (fst (GetEmployeeByEmail example_env example_client (Caller 0) ''missing@x.com''
          [WorkEmail_field, JobTitle_field] example_world)) =
     Some (ErrorsNew ''No employee found'') \<and>
   snd (fst (GetEmployeeByEmail example_env noid_client (Caller 0) ''new@x.com''
          [WorkEmail_field, JobTitle_field] example_world)) =
     Some (ErrorsNew ''No employee found'')"
  using
    GetEmployeeByEmail_not_found_iff [OF example_directory_run [of "Caller 0"],
      where email = "''a@x.com''" and fs = "[WorkEmail_field, JobTitle_field]"
        and e = "Employee_zero\<lparr>ID := ''7'', WorkEmail := ''a@x.com''\<rparr>"]
    GetEmployeeByEmail_not_found_iff [OF example_directory_run [of "Caller 0"],
      where email = "''missing@x.com''" and fs = "[WorkEmail_field, JobTitle_field]"]
    GetEmployeeByEmail_not_found_iff [OF noid_directory_run [of "Caller 0"],
      where email = "''new@x.com''" and fs = "[WorkEmail_field, JobTitle_field]"]
  by (simp add: Employee_zero_def example_employee_run)

lemma sent_GetEmployee:
  assumes "url_Parse env (BaseURL c @ ''/employees/'' @ id') = Inr q0"
  shows "sent (snd (GetEmployee env c ctx id' fs w)) =
     sent w @ [\<lparr>Method = ''GET'',
        Url = \<lparr>Text = BaseURL c @ ''/employees/'' @ id',
               RawQuery = Values_Add q0 ''fields''
                 (Join (if fs = [] then defaultFields else fs) '','')\<rparr>,
        Ctx = ctx\<rparr>]"
  by (simp only: GetEmployee_parsed [OF assms] sent_makeRequest)

lemma Values_Add_fresh: "q0 key = [] \<Longrightarrow> Values_Add q0 key v key = [v]"
  by (simp add: Values_Add_def)

text \<open>
  C3, amended. For every call of \<open>GetEmployee\<close> with no fields whose URL text
  \<^verbatim>\<open>{baseURL}/employees/{id}\<close> parses, exactly one request goes out: a GET for that
  text, whose query is the query the text itself carries with one value added under
  \<open>fields\<close>, the eighteen default tokens joined by commas in the documented order. When
  the text carries no \<open>fields\<close> parameter of its own, the \<open>fields\<close> parameter of
  the request is exactly that value. \<open>ReportingTo\<close> is not among the default tokens and
  does not occur in the value.
\<close>
theorem GetEmployee_default_fields:
  assumes "url_Parse env (BaseURL c @ ''/employees/'' @ id') = Inr q0"
  shows "sent (snd (GetEmployee env c ctx id' [] w)) =
           sent w @ [\<lparr>Method = ''GET'',
             Url = \<lparr>Text = BaseURL c @ ''/employees/'' @ id',
                    RawQuery = Values_Add q0 ''fields'' default_query\<rparr>,
             Ctx = ctx\<rparr>] \<and>
         (q0 ''fields'' = [] \<longrightarrow>
            Values_Add q0 ''fields'' default_query ''fields'' = [default_query] \<and>
            Values_Get (Values_Add q0 ''fields'' default_query) ''fields'' = default_query) \<and>
         Join defaultFields '','' = default_query \<and>
         length defaultFields = 18 \<and>
         ReportingTo_field \<notin> set defaultFields \<and>
         (\<forall>p s. default_query \<noteq> p @ ReportingTo_field @ s)"
proof -
  have "sent (snd (GetEmployee env c ctx id' [] w)) =
           sent w @ [\<lparr>Method = ''GET'',
             Url = \<lparr>Text = BaseURL c @ ''/employees/'' @ id',
                    RawQuery = Values_Add q0 ''fields'' default_query\<rparr>,
             Ctx = ctx\<rparr>]"
    using sent_GetEmployee [OF assms, of ctx "[]" w] by (simp add: Join_defaultFields)
  moreover have "q0 ''fields'' = [] \<longrightarrow>
            Values_Add q0 ''fields'' default_query ''fields'' = [default_query] \<and>
            Values_Get (Values_Add q0 ''fields'' default_query) ''fields'' = default_query"
    by (simp add: Values_Add_fresh Values_Get_def)
  moreover have "length defaultFields = 18"
    by (simp add: defaultFields_def)
  ultimately show ?thesis
    using Join_defaultFields ReportingTo_not_default ReportingTo_not_inside by blast
qed

theorem GetEmployee_default_fields_witness:
  "map (\<lambda>r. RawQuery (Url r) ''fields'')
     (sent (snd (GetEmployee example_env example_client (Caller 0) ''7'' [] example_world))) =
     [[default_query]]"
  using GetEmployee_default_fields [of example_env example_client "''7''" "\<lambda>key. []"
      "Caller 0" example_world]
  by (simp add: example_env_def example_parse_def example_client_def example_world_def)

text \<open>
  C3 as stated does not hold for every call: the id is put into the URL text as it is,
  and with the id \<^verbatim>\<open>7?fields=ID\<close> the request carries two values under \<open>fields\<close>, the
  first of which is \<open>ID\<close>.
\<close>
theorem GetEmployee_default_fields_counterexample:
  "map (\<lambda>r. RawQuery (Url r) ''fields'')
     (sent (snd (GetEmployee example_env example_client (Caller 0) ''7?fields=ID'' []
        example_world))) = [[''ID'', default_query]] \<and>
   map (\<lambda>r. Values_Get (RawQuery (Url r)) ''fields'')
     (sent (snd (GetEmployee example_env example_client (Caller 0) ''7?fields=ID'' []
        example_world))) = [''ID'']"
  by (simp add: sent_GetEmployee [where ?q0.0 = "(\<lambda>key. [])(''fields'' := [''ID''])"]
      example_env_def example_parse_def example_client_def example_world_def
      Values_Add_def Values_Get_def Join_defaultFields)


text \<open>
  C5, amended. For every call of \<open>GetEmployee\<close> with a non-empty field list whose URL
  text \<^verbatim>\<open>{baseURL}/employees/{id}\<close> parses, exactly one request goes out: a GET for
  that text, whose query is the query the text itself carries with one value added under
  \<open>fields\<close>, the caller's fields in the caller's order joined by commas. When the text
  carries no \<open>fields\<close> parameter of its own, the \<open>fields\<close> parameter of the request
  is exactly that value. For the fields WorkEmail, JobTitle the value is
  \<^verbatim>\<open>WorkEmail,JobTitle\<close>.
\<close>
theorem GetEmployee_explicit_fields:
  assumes "url_Parse env (BaseURL c @ ''/employees/'' @ id') = Inr q0" and "fs \<noteq> []"
  shows "sent (snd (GetEmployee env c ctx id' fs w)) =
           sent w @ [\<lparr>Method = ''GET'',
             Url = \<lparr>Text = BaseURL c @ ''/employees/'' @ id',
                    RawQuery = Values_Add q0 ''fields'' (Join_spec fs '','')\<rparr>,
             Ctx = ctx\<rparr>] \<and>
         (q0 ''fields'' = [] \<longrightarrow>
            Values_Add q0 ''fields'' (Join_spec fs '','') ''fields'' = [Join_spec fs '',''] \<and>
            Values_Get (Values_Add q0 ''fields'' (Join_spec fs '','')) ''fields'' =
              Join_spec fs '','') \<and>
         Join_spec [WorkEmail_field, JobTitle_field] '','' = ''WorkEmail,JobTitle''"
  using sent_GetEmployee [OF assms(1), of ctx fs w] assms(2)
  by (simp add: Join_eq_spec Values_Add_fresh Values_Get_def WorkEmail_field_def
      JobTitle_field_def)

theorem GetEmployee_explicit_fields_witness:
  "map (\<lambda>r. (Method r, Text (Url r), RawQuery (Url r) ''fields''))
     (sent (snd (GetEmployee example_env example_client (Caller 0) ''7''
        [WorkEmail_field, JobTitle_field] example_world))) =
     [(''GET'', ''https://api.example/v1/employees/7'', [''WorkEmail,JobTitle''])]"
  using GetEmployee_explicit_fields [of example_env example_client "''7''" "\<lambda>key. []"
      "[WorkEmail_field, JobTitle_field]" "Caller 0" example_world]
  by (simp add: example_env_def example_parse_def example_client_def example_world_def
      WorkEmail_field_def JobTitle_field_def Values_Add_def)

text \<open>
  C5 as stated does not hold for every call: with the id \<^verbatim>\<open>7?fields=ID\<close> the request
  carries two values under \<open>fields\<close>, and the first is not the caller's list.
\<close>
theorem GetEmployee_explicit_fields_counterexample:
  "map (\<lambda>r. RawQuery (Url r) ''fields'')
     (sent (snd (GetEmployee example_env example_client (Caller 0) ''7?fields=ID''
        [WorkEmail_field, JobTitle_field] example_world))) =
     [[''ID'', ''WorkEmail,JobTitle'']] \<and>
   map (\<lambda>r. Values_Get (RawQuery (Url r)) ''fields'')
     (sent (snd (GetEmployee example_env example_client (Caller 0) ''7?fields=ID''
        [WorkEmail_field, JobTitle_field] example_world))) = [''ID'']"
  by (simp add: sent_GetEmployee [where ?q0.0 = "(\<lambda>key. [])(''fields'' := [''ID''])"]
      example_env_def example_parse_def example_client_def example_world_def
      Values_Add_def Values_Get_def Join_Cons WorkEmail_field_def JobTitle_field_def)

lemma GetEmployeeDirectory_success:
  assumes "GetEmployeeDirectory env c ctx w = ((es, None), w')"
  shows "\<exists>q0 body er.
     url_Parse env (BaseURL c @ ''/employees/directory'') = Inr q0 \<and>
     execute env \<lparr>Method = ''GET'',
        Url = \<lparr>Text = BaseURL c @ ''/employees/directory'', RawQuery = q0\<rparr>, Ctx = ctx\<rparr>
        (remote w) = (Inr body, remote w') \<and>
     decodeEmployeeResponse body EmployeeResponse_zero = Some er \<and>
     es = Employees er \<and>
     sent w' = sent w @ [\<lparr>Method = ''GET'',
        Url = \<lparr>Text = BaseURL c @ ''/employees/directory'', RawQuery = q0\<rparr>, Ctx = ctx\<rparr>]"
proof (cases "url_Parse env (BaseURL c @ ''/employees/directory'')")
  case (Inl msg)
  with assms show ?thesis by (simp add: GetEmployeeDirectory_unparsed)
next
  case (Inr q0)
  with assms show ?thesis
    by (auto simp add: GetEmployeeDirectory_parsed makeRequest_def Let_def
        split: prod.splits sum.splits option.splits)
qed

text \<open>
  C6, amended. For every call of \<open>GetEmployeeDirectory\<close> whose URL text
  \<^verbatim>\<open>{baseURL}/employees/directory\<close> parses, exactly one request goes out: a GET for
  that text with the caller's context, to which the operation adds no query parameter.
  When the executor answers it with a body that decodes, the operation returns the
  decoded \<open>Employees\<close> array and no error; and whenever the operation returns without
  error, what it returns is the \<open>Employees\<close> array decoded from the body of that
  answer. When the URL text does not parse, no request goes out and the error of the
  request construction is returned.
\<close>
theorem GetEmployeeDirectory_single_request:
  "(url_Parse env (BaseURL c @ ''/employees/directory'') = Inr q0 \<longrightarrow>
      sent (snd (GetEmployeeDirectory env c ctx w)) =
        sent w @ [\<lparr>Method = ''GET'',
          Url = \<lparr>Text = BaseURL c @ ''/employees/directory'', RawQuery = q0\<rparr>,
          Ctx = ctx\<rparr>]) \<and>
   (url_Parse env (BaseURL c @ ''/employees/directory'') = Inr q0 \<and>
    execute env \<lparr>Method = ''GET'',
        Url = \<lparr>Text = BaseURL c @ ''/employees/directory'', RawQuery = q0\<rparr>, Ctx = ctx\<rparr>
        (remote w) = (Inr body, s) \<and>
    decodeEmployeeResponse body EmployeeResponse_zero = Some er \<longrightarrow>
      fst (GetEmployeeDirectory env c ctx w) = (Employees er, None)) \<and>
   (GetEmployeeDirectory env c ctx w = ((es, None), w') \<longrightarrow>
      (\<exists>q body er.
         url_Parse env (BaseURL c @ ''/employees/directory'') = Inr q \<and>
         execute env \<lparr>Method = ''GET'',
            Url = \<lparr>Text = BaseURL c @ ''/employees/directory'', RawQuery = q\<rparr>, Ctx = ctx\<rparr>
            (remote w) = (Inr body, remote w') \<and>
         decodeEmployeeResponse body EmployeeResponse_zero = Some er \<and>
         es = Employees er)) \<and>
   (url_Parse env (BaseURL c @ ''/employees/directory'') = Inl msg \<longrightarrow>
      GetEmployeeDirectory env c ctx w = (([], Some (RequestError msg)), w))"
proof -
  have one: "url_Parse env (BaseURL c @ ''/employees/directory'') = Inr q0 \<longrightarrow>
      sent (snd (GetEmployeeDirectory env c ctx w)) =
        sent w @ [\<lparr>Method = ''GET'',
          Url = \<lparr>Text = BaseURL c @ ''/employees/directory'', RawQuery = q0\<rparr>,
          Ctx = ctx\<rparr>]"
    by (simp add: GetEmployeeDirectory_parsed makeRequest_def Let_def
        split: prod.splits sum.splits option.splits)
  have two: "url_Parse env (BaseURL c @ ''/employees/directory'') = Inr q0 \<and>
    execute env \<lparr>Method = ''GET'',
        Url = \<lparr>Text = BaseURL c @ ''/employees/directory'', RawQuery = q0\<rparr>, Ctx = ctx\<rparr>
        (remote w) = (Inr body, s) \<and>
    decodeEmployeeResponse body EmployeeResponse_zero = Some er \<longrightarrow>
      fst (GetEmployeeDirectory env c ctx w) = (Employees er, None)"
    by (simp add: GetEmployeeDirectory_parsed makeRequest_def Let_def)
  have three: "GetEmployeeDirectory env c ctx w = ((es, None), w') \<longrightarrow>
      (\<exists>q body er.
         url_Parse env (BaseURL c @ ''/employees/directory'') = Inr q \<and>
         execute env \<lparr>Method = ''GET'',
            Url = \<lparr>Text = BaseURL c @ ''/employees/directory'', RawQuery = q\<rparr>, Ctx = ctx\<rparr>
            (remote w) = (Inr body, remote w') \<and>
         decodeEmployeeResponse body EmployeeResponse_zero = Some er \<and>
         es = Employees er)"
    using GetEmployeeDirectory_success [of env c ctx w es w'] by blast
  have four: "url_Parse env (BaseURL c @ ''/employees/directory'') = Inl msg \<longrightarrow>
      GetEmployeeDirectory env c ctx w = (([], Some (RequestError msg)), w)"
    by (simp add: GetEmployeeDirectory_unparsed)
  from one two three four show ?thesis by blast
qed


theorem GetEmployeeDirectory_single_request_witness:
  "sent (snd (GetEmployeeDirectory example_env example_client (Caller 0) example_world)) =
     [\<lparr>Method = ''GET'',
       Url = \<lparr>Text = ''https://api.example/v1/employees/directory'',
              RawQuery = (\<lambda>key. [])\<rparr>,
       Ctx = Caller 0\<rparr>] \<and>
   fst (GetEmployeeDirectory example_env example_client (Caller 0) example_world) =
     ([Employee_zero\<lparr>ID := ''7'', WorkEmail := ''a@x.com''\<rparr>,
       Employee_zero\<lparr>ID := ''8'', WorkEmail := ''b@x.com''\<rparr>,
       Employee_zero\<lparr>ID := ''9'', WorkEmail := ''a@x.com''\<rparr>], None) \<and>
   GetEmployeeDirectory example_env malformed_client (Caller 0) example_world =
     (([], Some (RequestError ''missing protocol scheme'')), example_world)"
proof -
  have parsed: "url_Parse example_env (BaseURL example_client @ ''/employees/directory'') =
      Inr (\<lambda>key. [])"
    by (simp add: example_env_def example_parse_def example_client_def)
  have answered: "execute example_env
      \<lparr>Method = ''GET'',
       Url = \<lparr>Text = BaseURL example_client @ ''/employees/directory'',
              RawQuery = (\<lambda>key. [])\<rparr>,
       Ctx = Caller 0\<rparr> (remote example_world) = (Inr example_directory, 1)"
    by (simp add: example_env_def example_execute_def example_client_def example_world_def)
  have decoded: "decodeEmployeeResponse example_directory EmployeeResponse_zero =
      Some \<lparr>Employees =
        [Employee_zero\<lparr>ID := ''7'', WorkEmail := ''a@x.com''\<rparr>,
         Employee_zero\<lparr>ID := ''8'', WorkEmail := ''b@x.com''\<rparr>,
         Employee_zero\<lparr>ID := ''9'', WorkEmail := ''a@x.com''\<rparr>]\<rparr>"
    by (simp add: example_directory_def decode_defs EmployeeResponse_zero_def Employee_zero_def)
  have unparsed: "url_Parse example_env (BaseURL malformed_client @ ''/employees/directory'') =
      Inl ''missing protocol scheme''"
    by (simp add: example_env_def example_parse_def malformed_client_def)
  have one: "sent (snd (GetEmployeeDirectory example_env example_client (Caller 0)
      example_world)) =
     sent example_world @ [\<lparr>Method = ''GET'',
       Url = \<lparr>Text = BaseURL example_client @ ''/employees/directory'',
              RawQuery = (\<lambda>key. [])\<rparr>,
       Ctx = Caller 0\<rparr>]"
    by (rule GetEmployeeDirectory_single_request [THEN conjunct1, rule_format, OF parsed])
  have two: "fst (GetEmployeeDirectory example_env example_client (Caller 0) example_world) =
     (Employees \<lparr>Employees =
        [Employee_zero\<lparr>ID := ''7'', WorkEmail := ''a@x.com''\<rparr>,
         Employee_zero\<lparr>ID := ''8'', WorkEmail := ''b@x.com''\<rparr>,
         Employee_zero\<lparr>ID := ''9'', WorkEmail := ''a@x.com''\<rparr>]\<rparr>, None)"
    by (rule GetEmployeeDirectory_single_request [THEN conjunct2, THEN conjunct1, rule_format,
          OF conjI [OF parsed conjI [OF answered decoded]]])
  have four: "GetEmployeeDirectory example_env malformed_client (Caller 0) example_world =
     (([], Some (RequestError ''missing protocol scheme'')), example_world)"
    by (rule GetEmployeeDirectory_single_request [THEN conjunct2, THEN conjunct2,
          THEN conjunct2, rule_format, OF unparsed])
  have "\<exists>q body er.
      url_Parse example_env (BaseURL example_client @ ''/employees/directory'') = Inr q \<and>
      execute example_env
        \<lparr>Method = ''GET'',
         Url = \<lparr>Text = BaseURL example_client @ ''/employees/directory'', RawQuery = q\<rparr>,
         Ctx = Caller 0\<rparr> (remote example_world) = (Inr body, 1) \<and>
      decodeEmployeeResponse body EmployeeResponse_zero = Some er \<and>
      [Employee_zero\<lparr>ID := ''7'', WorkEmail := ''a@x.com''\<rparr>,
       Employee_zero\<lparr>ID := ''8'', WorkEmail := ''b@x.com''\<rparr>,
       Employee_zero\<lparr>ID := ''9'', WorkEmail := ''a@x.com''\<rparr>] = Employees er"
    using GetEmployeeDirectory_single_request [THEN conjunct2, THEN conjunct2, THEN conjunct1,
        rule_format, OF example_directory_run [of "Caller 0"]]
    by simp
  with parsed answered decoded have three:
    "decodeEmployeeResponse example_directory EmployeeResponse_zero =
       Some \<lparr>Employees = [Employee_zero\<lparr>ID := ''7'', WorkEmail := ''a@x.com''\<rparr>,
         Employee_zero\<lparr>ID := ''8'', WorkEmail := ''b@x.com''\<rparr>,
         Employee_zero\<lparr>ID := ''9'', WorkEmail := ''a@x.com''\<rparr>]\<rparr>"
    by simp
  from one two three four show ?thesis
    by (simp add: example_client_def example_world_def)
qed

text \<open>
  C6 as stated does not hold for every call: with the base URL \<^verbatim>\<open>:\<close> the request
  cannot be constructed, and the operation returns that error without a request.
\<close>
theorem GetEmployeeDirectory_single_request_counterexample:
  "sent (snd (GetEmployeeDirectory example_env malformed_client (Caller 0) example_world)) = [] \<and>
   fst (GetEmployeeDirectory example_env malformed_client (Caller 0) example_world) =
     ([], Some (RequestError ''missing protocol scheme''))"
  unfolding malformed_directory_run by (simp add: example_world_def)

text \<open>
  C7. Whenever \<open>GetEmployeeDirectory\<close> fails, \<open>GetEmployeeIDByEmail\<close> returns the
  empty string with that same error and \<open>GetEmployeeByEmail\<close> returns the zero
  \<open>Employee\<close> with that same error; and whenever the directory is fetched, its first
  entry with the given work email has a non-empty ID and the delegated \<open>GetEmployee\<close>
  fails, \<open>GetEmployeeByEmail\<close> returns what that call returned, its error unchanged.
\<close>
theorem errors_propagate_unchanged:
  "(GetEmployeeDirectory env c TODO w = ((d, Some err), w') \<longrightarrow>
      GetEmployeeIDByEmail env c email w = (([], Some err), w')) \<and>
   (GetEmployeeDirectory env c ctx w = ((d, Some err), w') \<longrightarrow>
      GetEmployeeByEmail env c ctx email fs w = ((Employee_zero, Some err), w')) \<and>
   (GetEmployeeDirectory env c ctx w = ((directory, None), w') \<and>
    find (\<lambda>x. WorkEmail x = email) directory = Some e \<and> ID e \<noteq> [] \<and>
    GetEmployee env c ctx (ID e) fs w' = ((emp, Some err), w'') \<longrightarrow>
      GetEmployeeByEmail env c ctx email fs w = ((emp, Some err), w''))"
  by (simp add: GetEmployeeIDByEmail_err GetEmployeeByEmail_err GetEmployeeByEmail_ok
      scanBreak_find)

theorem errors_propagate_unchanged_witness:
  "fst (GetEmployeeIDByEmail example_env unknown_client ''a@x.com'' example_world) =
     ([], Some (TransportError ''404 Not Found'')) \<and>
   fst (GetEmployeeByEmail example_env unknown_client (Caller 0) ''a@x.com'' [] example_world) =
     (Employee_zero, Some (TransportError ''404 Not Found'')) \<and>
   fst (GetEmployeeByEmail example_env example_client (Caller 0) ''b@x.com'' [] example_world) =
     (Employee_zero, Some (TransportError ''404 Not Found''))"
proof -
  have found: "find (\<lambda>x. WorkEmail x = ''b@x.com'')
      [Employee_zero\<lparr>ID := ''7'', WorkEmail := ''a@x.com''\<rparr>,
       Employee_zero\<lparr>ID := ''8'', WorkEmail := ''b@x.com''\<rparr>,
       Employee_zero\<lparr>ID := ''9'', WorkEmail := ''a@x.com''\<rparr>] =
      Some (Employee_zero\<lparr>ID := ''8'', WorkEmail := ''b@x.com''\<rparr>)"
    by simp
  have hasid: "ID (Employee_zero\<lparr>ID := ''8'', WorkEmail := ''b@x.com''\<rparr>) \<noteq> []"
    by simp
  have fails: "GetEmployee example_env example_client (Caller 0)
      (ID (Employee_zero\<lparr>ID := ''8'', WorkEmail := ''b@x.com''\<rparr>)) []
      \<lparr>remote = 1,
       sent = [\<lparr>Method = ''GET'',
                Url = \<lparr>Text = ''https://api.example/v1/employees/directory'',
                       RawQuery = (\<lambda>key. [])\<rparr>,
                Ctx = Caller 0\<rparr>]\<rparr> =
     ((Employee_zero, Some (TransportError ''404 Not Found'')),
      \<lparr>remote = 2,
       sent = [\<lparr>Method = ''GET'',
                Url = \<lparr>Text = ''https://api.example/v1/employees/directory'',
                       RawQuery = (\<lambda>key. [])\<rparr>,
                Ctx = Caller 0\<rparr>,
               \<lparr>Method = ''GET'',
                Url = \<lparr>Text = ''https://api.example/v1/employees/8'',
                       RawQuery = Values_Add (\<lambda>key. []) ''fields'' default_query\<rparr>,
                Ctx = Caller 0\<rparr>]\<rparr>)"
    by (simp add: example_missing_employee_run)
  have by_id: "GetEmployeeIDByEmail example_env unknown_client ''a@x.com'' example_world =
      (([], Some (TransportError ''404 Not Found'')),
       \<lparr>remote = 1,
        sent = [\<lparr>Method = ''GET'',
                 Url = \<lparr>Text = ''https://down.example/v1/employees/directory'',
                        RawQuery = (\<lambda>key. [])\<rparr>,
                 Ctx = TODO\<rparr>]\<rparr>)"
    by (rule errors_propagate_unchanged [THEN conjunct1, rule_format,
          OF unknown_directory_run])
  have by_email: "GetEmployeeByEmail example_env unknown_client (Caller 0) ''a@x.com'' []
      example_world =
      ((Employee_zero, Some (TransportError ''404 Not Found'')),
       \<lparr>remote = 1,
        sent = [\<lparr>Method = ''GET'',
                 Url = \<lparr>Text = ''https://down.example/v1/employees/directory'',
                        RawQuery = (\<lambda>key. [])\<rparr>,
                 Ctx = Caller 0\<rparr>]\<rparr>)"
    by (rule errors_propagate_unchanged [THEN conjunct2, THEN conjunct1, rule_format,
          OF unknown_directory_run])
  have delegated: "fst (GetEmployeeByEmail example_env example_client (Caller 0) ''b@x.com''
      [] example_world) = (Employee_zero, Some (TransportError ''404 Not Found''))"
    using errors_propagate_unchanged [THEN conjunct2, THEN conjunct2, rule_format,
          OF conjI [OF example_directory_run conjI [OF found conjI [OF hasid fails]]]]
    by simp
  from by_id by_email delegated show ?thesis by simp
qed

lemma sent_GetEmployeeDirectory_success:
  "GetEmployeeDirectory env c ctx w = ((es, None), w') \<Longrightarrow>
   length (sent w') = Suc (length (sent w))"
  using GetEmployeeDirectory_success [of env c ctx w es w'] by auto

text \<open>
  C10. For every directory in which the first entry with the given work email has an
  empty ID: \<open>GetEmployeeByEmail\<close> returns the error "No employee found" and ends in the
  state reached right after the directory request, one request after the start, so no
  second request goes out; \<open>GetEmployeeIDByEmail\<close> returns the empty string and no
  error. Both results are the results of a run whose directory has no entry with that
  work email.
\<close>
theorem empty_ID_match_as_no_match:
  assumes "find (\<lambda>x. WorkEmail x = email) directory = Some e" and "ID e = []"
  shows "(GetEmployeeDirectory env c ctx w = ((directory, None), w1) \<longrightarrow>
            GetEmployeeByEmail env c ctx email fs w =
              ((Employee_zero, Some (ErrorsNew ''No employee found'')), w1) \<and>
            length (sent w1) = Suc (length (sent w))) \<and>
         (GetEmployeeDirectory env c TODO w = ((directory, None), w2) \<longrightarrow>
            GetEmployeeIDByEmail env c email w = (([], None), w2)) \<and>
         (find (\<lambda>x. WorkEmail x = email) directory' = None \<and>
          GetEmployeeDirectory env c ctx w = ((directory, None), w1) \<and>
          GetEmployeeDirectory env' c' ctx' v = ((directory', None), v1) \<longrightarrow>
            fst (GetEmployeeByEmail env c ctx email fs w) =
              fst (GetEmployeeByEmail env' c' ctx' email fs' v)) \<and>
         (find (\<lambda>x. WorkEmail x = email) directory' = None \<and>
          GetEmployeeDirectory env c TODO w = ((directory, None), w2) \<and>
          GetEmployeeDirectory env' c' TODO v = ((directory', None), v2) \<longrightarrow>
            fst (GetEmployeeIDByEmail env c email w) =
              fst (GetEmployeeIDByEmail env' c' email v))"
  using assms
  by (auto simp add: GetEmployeeByEmail_ok GetEmployeeIDByEmail_ok scanBreak_find scanID_find
      sent_GetEmployeeDirectory_success)

theorem empty_ID_match_as_no_match_witness:
  "GetEmployeeByEmail example_env noid_client (Caller 0) ''new@x.com'' [] example_world =
     ((Employee_zero, Some (ErrorsNew ''No employee found'')),
      \<lparr>remote = 1,
       sent = [\<lparr>Method = ''GET'',
                Url = \<lparr>Text = ''https://hr.example/v1/employees/directory'',
                       RawQuery = (\<lambda>key. [])\<rparr>,
                Ctx = Caller 0\<rparr>]\<rparr>) \<and>
   fst (GetEmployeeIDByEmail example_env noid_client ''new@x.com'' example_world) =
     ([], None) \<and>
   fst (GetEmployeeByEmail example_env noid_client (Caller 0) ''new@x.com'' [] example_world) =
     fst (GetEmployeeByEmail example_env example_client (Caller 1) ''new@x.com''
            [WorkEmail_field] example_world) \<and>
   fst (GetEmployeeIDByEmail example_env noid_client ''new@x.com'' example_world) =
     fst (GetEmployeeIDByEmail example_env example_client ''new@x.com'' example_world)"
proof -
  have found: "find (\<lambda>x. WorkEmail x = ''new@x.com'')
      [Employee_zero\<lparr>ID := [], WorkEmail := ''new@x.com''\<rparr>] =
      Some (Employee_zero\<lparr>ID := [], WorkEmail := ''new@x.com''\<rparr>)"
    by simp
  have noid: "ID (Employee_zero\<lparr>ID := [], WorkEmail := ''new@x.com''\<rparr>) = []"
    by simp
  have unmatched: "find (\<lambda>x. WorkEmail x = ''new@x.com'')
      [Employee_zero\<lparr>ID := ''7'', WorkEmail := ''a@x.com''\<rparr>,
       Employee_zero\<lparr>ID := ''8'', WorkEmail := ''b@x.com''\<rparr>,
       Employee_zero\<lparr>ID := ''9'', WorkEmail := ''a@x.com''\<rparr>] = None"
    by simp
  note all = empty_ID_match_as_no_match [OF found noid]
  have by_email: "GetEmployeeByEmail example_env noid_client (Caller 0) ''new@x.com'' []
      example_world =
     ((Employee_zero, Some (ErrorsNew ''No employee found'')),
      \<lparr>remote = 1,
       sent = [\<lparr>Method = ''GET'',
                Url = \<lparr>Text = ''https://hr.example/v1/employees/directory'',
                       RawQuery = (\<lambda>key. [])\<rparr>,
                Ctx = Caller 0\<rparr>]\<rparr>)"
    using all [THEN conjunct1, rule_format, OF noid_directory_run] by simp
  have by_id: "fst (GetEmployeeIDByEmail example_env noid_client ''new@x.com'' example_world) =
      ([], None)"
    using all [THEN conjunct2, THEN conjunct1, rule_format, OF noid_directory_run] by simp
  have same_email: "fst (GetEmployeeByEmail example_env noid_client (Caller 0) ''new@x.com''
      [] example_world) =
     fst (GetEmployeeByEmail example_env example_client (Caller 1) ''new@x.com''
            [WorkEmail_field] example_world)"
    by (rule all [THEN conjunct2, THEN conjunct2, THEN conjunct1, rule_format,
          OF conjI [OF unmatched conjI [OF noid_directory_run example_directory_run]]])
  have same_id: "fst (GetEmployeeIDByEmail example_env noid_client ''new@x.com''
      example_world) =
     fst (GetEmployeeIDByEmail example_env example_client ''new@x.com'' example_world)"
    by (rule all [THEN conjunct2, THEN conjunct2, THEN conjunct2, rule_format,
          OF conjI [OF unmatched conjI [OF noid_directory_run example_directory_run]]])
  from by_email by_id same_email same_id show ?thesis by simp
qed

lemma setField_other_PhotoUploaded:
  "key \<noteq> ''PhotoUploaded'' \<Longrightarrow> setField key v e = Some e' \<Longrightarrow>
   PhotoUploaded e' = PhotoUploaded e"
  by (auto simp add: setField_def split: if_splits)

lemma setField_other_CanUploadPhoto:
  "key \<noteq> ''CanUploadPhoto'' \<Longrightarrow> setField key v e = Some e' \<Longrightarrow>
   CanUploadPhoto e' = CanUploadPhoto e"
  by (auto simp add: setField_def split: if_splits)

lemma decodeFields_absent_PhotoUploaded:
  "decodeFields kvs e = Some e' \<Longrightarrow> ''PhotoUploaded'' \<notin> fst ` set kvs \<Longrightarrow>
   PhotoUploaded e' = PhotoUploaded e"
proof (induction kvs arbitrary: e)
  case Nil
  then show ?case by simp
next
  case (Cons kv kvs)
  obtain key v where kv: "kv = (key, v)" by (cases kv)
  from Cons.prems kv obtain e1 where
    step: "setField key v e = Some e1" and rest: "decodeFields kvs e1 = Some e'"
    by (auto split: option.splits)
  from Cons.prems kv have "key \<noteq> ''PhotoUploaded''" and "''PhotoUploaded'' \<notin> fst ` set kvs"
    by auto
  with step rest Cons.IH [of e1] show ?case
    by (simp add: setField_other_PhotoUploaded)
qed

lemma decodeFields_absent_CanUploadPhoto:
  "decodeFields kvs e = Some e' \<Longrightarrow> ''CanUploadPhoto'' \<notin> fst ` set kvs \<Longrightarrow>
   CanUploadPhoto e' = CanUploadPhoto e"
proof (induction kvs arbitrary: e)
  case Nil
  then show ?case by simp
next
  case (Cons kv kvs)
  obtain key v where kv: "kv = (key, v)" by (cases kv)
  from Cons.prems kv obtain e1 where
    step: "setField key v e = Some e1" and rest: "decodeFields kvs e1 = Some e'"
    by (auto split: option.splits)
  from Cons.prems kv have "key \<noteq> ''CanUploadPhoto''" and "''CanUploadPhoto'' \<notin> fst ` set kvs"
    by auto
  with step rest Cons.IH [of e1] show ?case
    by (simp add: setField_other_CanUploadPhoto)
qed

lemma decodeFields_append:
  "decodeFields (kvs @ kvs') e =
     (case decodeFields kvs e of None \<Rightarrow> None | Some e1 \<Rightarrow> decodeFields kvs' e1)"
  by (induction kvs arbitrary: e) (auto split: option.splits)

lemma decodeFields_explicit:
  "decodeFields [(''PhotoUploaded'', JBool False), (''CanUploadPhoto'', JInt 0)] e =
     Some (e\<lparr>PhotoUploaded := Some False, CanUploadPhoto := Some 0\<rparr>)"
  by (simp add: setField_def decodeBoolPtr_def decodeIntPtr_def)

text \<open>
  C9. For every \<open>Employee\<close> decoded from a JSON object that has neither the key
  \<open>PhotoUploaded\<close> nor the key \<open>CanUploadPhoto\<close>, both fields are absent (\<open>None\<close>);
  the same object with \<open>PhotoUploaded\<close> given as \<open>false\<close> and \<open>CanUploadPhoto\<close> given
  as \<open>0\<close> decodes to the record with \<open>Some False\<close> and \<open>Some 0\<close>, which differs from
  the first in both fields.
\<close>
theorem absent_pointer_fields:
  assumes "''PhotoUploaded'' \<notin> fst ` set kvs" and "''CanUploadPhoto'' \<notin> fst ` set kvs"
    and "decodeEmployee (JObject kvs) Employee_zero = Some e"
  shows "PhotoUploaded e = None \<and> CanUploadPhoto e = None \<and>
         decodeEmployee
           (JObject (kvs @ [(''PhotoUploaded'', JBool False), (''CanUploadPhoto'', JInt 0)]))
           Employee_zero = Some (e\<lparr>PhotoUploaded := Some False, CanUploadPhoto := Some 0\<rparr>) \<and>
         PhotoUploaded e \<noteq> PhotoUploaded (e\<lparr>PhotoUploaded := Some False, CanUploadPhoto := Some 0\<rparr>) \<and>
         CanUploadPhoto e \<noteq> CanUploadPhoto (e\<lparr>PhotoUploaded := Some False, CanUploadPhoto := Some 0\<rparr>)"
proof -
  from assms(3) have dec: "decodeFields kvs Employee_zero = Some e"
    by (simp add: decodeEmployee_def)
  have p: "PhotoUploaded e = None"
    using decodeFields_absent_PhotoUploaded [OF dec assms(1)] by (simp add: Employee_zero_def)
  have c: "CanUploadPhoto e = None"
    using decodeFields_absent_CanUploadPhoto [OF dec assms(2)] by (simp add: Employee_zero_def)
  have x: "decodeEmployee
           (JObject (kvs @ [(''PhotoUploaded'', JBool False), (''CanUploadPhoto'', JInt 0)]))
           Employee_zero = Some (e\<lparr>PhotoUploaded := Some False, CanUploadPhoto := Some 0\<rparr>)"
    by (simp add: decodeEmployee_def decodeFields_append dec decodeFields_explicit
        del: decodeFields.simps)
  from p c x show ?thesis by simp
qed

theorem absent_pointer_fields_witness:
  "decodeEmployee example_employee Employee_zero =
     Some (Employee_zero\<lparr>JobTitle := ''Engineer'', WorkEmail := ''a@x.com''\<rparr>) \<and>
   PhotoUploaded (Employee_zero\<lparr>JobTitle := ''Engineer'', WorkEmail := ''a@x.com''\<rparr>) = None \<and>
   CanUploadPhoto (Employee_zero\<lparr>JobTitle := ''Engineer'', WorkEmail := ''a@x.com''\<rparr>) = None \<and>
   decodeEmployee
     (JObject [(''WorkEmail'', JString ''a@x.com''), (''JobTitle'', JString ''Engineer''),
        (''PhotoUploaded'', JBool False), (''CanUploadPhoto'', JInt 0)]) Employee_zero =
     Some (Employee_zero\<lparr>JobTitle := ''Engineer'', WorkEmail := ''a@x.com'',
       PhotoUploaded := Some False, CanUploadPhoto := Some 0\<rparr>)"
proof -
  have absent1: "''PhotoUploaded'' \<notin>
      fst ` set [(''WorkEmail'', JString ''a@x.com''), (''JobTitle'', JString ''Engineer'')]"
    by simp
  have absent2: "''CanUploadPhoto'' \<notin>
      fst ` set [(''WorkEmail'', JString ''a@x.com''), (''JobTitle'', JString ''Engineer'')]"
    by simp
  have dec: "decodeEmployee
      (JObject [(''WorkEmail'', JString ''a@x.com''), (''JobTitle'', JString ''Engineer'')])
      Employee_zero = Some (Employee_zero\<lparr>JobTitle := ''Engineer'', WorkEmail := ''a@x.com''\<rparr>)"
    by (simp add: decode_defs Employee_zero_def)
  from absent_pointer_fields [OF absent1 absent2 dec] dec show ?thesis
    by (simp add: example_employee_def)
qed

end
